theory Spec2Isabelle
  imports Main "HOL-Library.Multiset" "HOL-Library.Char_ord" "HOL-Library.List_Lexorder"
begin

section \<open>Causal message entries (causal.py, class CausalMessageEntry)\<close>

text \<open>
  The data class has the fields \<open>i\<close> (origin), \<open>clock_i\<close> (sequence number) and
  \<open>Dests\<close> (a Python set of peer ids). Peer ids are strings, Python integers are
  unbounded, a Python set of strings is a HOL set.
\<close>

record CausalMessageEntry =
  i :: string
  clock_i :: int
  Dests :: "string set"

text \<open>
  The decorator is \<open>@dataclass(init=True, repr=True, eq=True, order=False,
  unsafe_hash=False, frozen=False)\<close>. With \<open>eq=True\<close> the generated \<open>__eq__\<close>
  compares the two objects as the tuples of all their fields, in order.
\<close>

definition CausalMessageEntry_eq :: "CausalMessageEntry \<Rightarrow> CausalMessageEntry \<Rightarrow> bool" where
  "CausalMessageEntry_eq a b \<longleftrightarrow> (i a, clock_i a, Dests a) = (i b, clock_i b, Dests b)"

text \<open>
  \<open>__hash__\<close> is written by hand: \<open>return hash((self.i, self.clock_i))\<close>. The
  built-in hash of a tuple is the parameter \<open>hash_tuple\<close>.
\<close>

definition CausalMessageEntry_hash ::
  "(string \<times> int \<Rightarrow> int) \<Rightarrow> CausalMessageEntry \<Rightarrow> int" where
  "CausalMessageEntry_hash hash_tuple a = hash_tuple (i a, clock_i a)"

section \<open>Python sets of mutable entries\<close>

text \<open>
  \<open>LOG_j\<close> and \<open>O_M\<close> are Python sets whose elements are mutated in place (only
  \<open>Dests\<close> is assigned, so the hash of an element never changes). Such a set is
  modelled by the list of its elements in iteration order. Membership tests of the
  set operations compare with \<open>__eq__\<close>, which is equality of the records
  (lemma \<open>CausalMessageEntry_eq_iff\<close> below).

  \<open>s.add(x)\<close> inserts \<open>x\<close> unless an equal element is present; \<open>s.discard(x)\<close>
  removes an element equal to \<open>x\<close> if there is one; \<open>s.union(it)\<close> copies \<open>s\<close>
  and adds every element of \<open>it\<close>; \<open>s.difference(it)\<close> copies \<open>s\<close> and discards
  every element of \<open>it\<close>; \<open>set(it)\<close> adds every element of \<open>it\<close> to an empty set.
\<close>

definition py_add :: "'a \<Rightarrow> 'a list \<Rightarrow> 'a list" where
  "py_add x xs = (if x \<in> set xs then xs else xs @ [x])"

definition py_discard :: "'a \<Rightarrow> 'a list \<Rightarrow> 'a list" where
  "py_discard x xs = remove1 x xs"

definition py_union :: "'a list \<Rightarrow> 'a list \<Rightarrow> 'a list" where
  "py_union xs ys = fold py_add ys xs"

definition py_difference :: "'a list \<Rightarrow> 'a list \<Rightarrow> 'a list" where
  "py_difference xs ys = fold py_discard ys xs"

definition py_set :: "'a list \<Rightarrow> 'a list" where
  "py_set xs = fold py_add xs []"

text \<open>
  \<open>copy.deepcopy\<close> of a set rebuilds it with \<open>set(...)\<close> from the list of the
  copied elements.
\<close>

definition deepcopy :: "CausalMessageEntry list \<Rightarrow> CausalMessageEntry list" where
  "deepcopy X = py_set X"

section \<open>The causal order manager (causal.py, class CausalOrderManager)\<close>

datatype error = KeyError string | IndexError | MalformedEnvelope

record CausalOrderManager =
  j :: string
  clock_j :: int
  SR_j :: "string \<rightharpoonup> int"
  LOG_j :: "CausalMessageEntry list"

text \<open>The constructor \<open>__init__(own_id, controller)\<close>.\<close>

definition init :: "string \<Rightarrow> CausalOrderManager" where
  "init own_id =
     \<lparr>j = own_id, clock_j = 0, SR_j = [own_id \<mapsto> 0],
      LOG_j = py_set [\<lparr>i = own_id, clock_i = 0, Dests = {}\<rparr>]\<rparr>"

text \<open>\<open>newerEntryExists(s, t, X)\<close>: a loop over \<open>X\<close> that returns at the first hit.\<close>

fun newerEntryExists :: "string \<Rightarrow> int \<Rightarrow> CausalMessageEntry list \<Rightarrow> bool" where
  "newerEntryExists s t [] = False"
| "newerEntryExists s t (x # X) =
     (if s = i x \<and> t < clock_i x then True else newerEntryExists s t X)"

text \<open>
  \<open>purgeNullEntries()\<close>: the first loop collects the marked entries, the second
  discards them.
\<close>

definition purgeNullEntries :: "CausalMessageEntry list \<Rightarrow> CausalMessageEntry list" where
  "purgeNullEntries LOG =
     (let marked_l_sts =
            filter (\<lambda>l_st. Dests l_st = {} \<and> newerEntryExists (i l_st) (clock_i l_st) LOG) LOG
      in fold py_discard marked_l_sts LOG)"

text \<open>\<open>addPeer(peer_id)\<close>.\<close>

definition addPeer :: "string \<Rightarrow> CausalOrderManager \<Rightarrow> CausalOrderManager" where
  "addPeer peer_id s =
     s\<lparr>SR_j := (SR_j s)(peer_id \<mapsto> 0),
       LOG_j := py_add \<lparr>i = peer_id, clock_i = 0, Dests = {}\<rparr> (LOG_j s)\<rparr>"

text \<open>
  \<open>delPeer(peer_id)\<close>. \<open>del self.SR_j[peer_id]\<close> raises \<open>KeyError\<close> for a missing
  key, before anything is changed. The re-seeded entry reads \<open>self.controller.ip\<close>,
  the parameter \<open>ip\<close>.
\<close>

definition delPeer :: "string \<Rightarrow> string \<Rightarrow> CausalOrderManager \<Rightarrow> error + CausalOrderManager" where
  "delPeer ip peer_id s =
     (if peer_id \<notin> dom (SR_j s) then Inl (KeyError peer_id)
      else
        let sr = (SR_j s)(peer_id := None);
            marked_cmes = filter (\<lambda>cme. peer_id = i cme \<or> peer_id \<in> Dests cme) (LOG_j s);
            log1 = fold py_discard marked_cmes (LOG_j s)
        in Inr (s\<lparr>SR_j := sr,
                  LOG_j := py_add \<lparr>i = ip, clock_i = 0, Dests = {}\<rparr> log1\<rparr>))"

section \<open>The message envelope codec (packMessage, unpackMessage)\<close>

text \<open>
  \<open>packMessage\<close> hands a nested list of strings and integers to \<open>json.dumps\<close>,
  \<open>unpackMessage\<close> reshapes what \<open>json.loads\<close> returns. The text layer belongs
  to the Python standard library; a packed message is represented here by the JSON
  value itself. \<open>list(S)\<close> of a set of strings enumerates it in iteration order,
  modelled by the sorted enumeration.
\<close>

datatype json = JStr string | JInt int | JArr "json list"

definition packMessage ::
  "string \<Rightarrow> int \<Rightarrow> string \<Rightarrow> string set \<Rightarrow> CausalMessageEntry list \<Rightarrow> json" where
  "packMessage m clock_m M Ds O_M =
     JArr [JStr m, JInt clock_m, JStr M, JArr (map JStr (sorted_list_of_set Ds)),
           JArr (map (\<lambda>cme. JArr [JStr (i cme), JInt (clock_i cme),
                                     JArr (map JStr (sorted_list_of_set (Dests cme)))]) O_M)]"

text \<open>
  Python does not check the types of the unpacked fields. In the typed model a
  field of another JSON kind, or a list too short for the index used, is the error
  \<open>MalformedEnvelope\<close>; longer lists are accepted, as indexing accepts them.
\<close>

fun unpack_strs :: "json list \<Rightarrow> error + string list" where
  "unpack_strs [] = Inr []"
| "unpack_strs (JStr x # xs) =
     (case unpack_strs xs of Inl err \<Rightarrow> Inl err | Inr ys \<Rightarrow> Inr (x # ys))"
| "unpack_strs (_ # xs) = Inl MalformedEnvelope"

fun unpack_entry :: "json \<Rightarrow> error + CausalMessageEntry" where
  "unpack_entry (JArr (JStr e0 # JInt e1 # JArr e2 # _)) =
     (case unpack_strs e2 of Inl err \<Rightarrow> Inl err
      | Inr ds \<Rightarrow> Inr \<lparr>i = e0, clock_i = e1, Dests = set ds\<rparr>)"
| "unpack_entry _ = Inl MalformedEnvelope"

fun unpack_entries :: "json list \<Rightarrow> error + CausalMessageEntry list" where
  "unpack_entries [] = Inr []"
| "unpack_entries (x # xs) =
     (case unpack_entry x of Inl err \<Rightarrow> Inl err
      | Inr cme \<Rightarrow> (case unpack_entries xs of Inl err \<Rightarrow> Inl err
                     | Inr cmes \<Rightarrow> Inr (cme # cmes)))"

fun unpackMessage ::
  "json \<Rightarrow> error + (string \<times> int \<times> string \<times> string set \<times> CausalMessageEntry list)" where
  "unpackMessage (JArr (JStr u0 # JInt u1 # JStr u2 # JArr u3 # JArr u4 # _)) =
     (case unpack_strs u3 of Inl err \<Rightarrow> Inl err
      | Inr ds \<Rightarrow> (case unpack_entries u4 of Inl err \<Rightarrow> Inl err
                    | Inr cmes \<Rightarrow> Inr (u0, u1, u2, set ds, py_set cmes)))"
| "unpackMessage _ = Inl MalformedEnvelope"

section \<open>send\<close>

text \<open>
  Rule (1b), first inner loop: the two \<open>if\<close> statements on one copied entry, run
  one after the other.
\<close>

definition S_prune_d :: "string \<Rightarrow> string set \<Rightarrow> CausalMessageEntry \<Rightarrow> CausalMessageEntry" where
  "S_prune_d d Ds e =
     (let e1 = (if d \<notin> Dests e then e\<lparr>Dests := Dests e - Ds\<rparr> else e);
          e2 = (if d \<in> Dests e1 then e1\<lparr>Dests := (Dests e1 - Ds) \<union> {d}\<rparr> else e1)
      in e2)"

text \<open>
  Second inner loop: it iterates over the set object bound to \<open>O_M\<close> when the loop
  starts, tests \<open>newerEntryExists\<close> against the current \<open>O_M\<close> and rebinds \<open>O_M\<close>
  to \<open>O_M.difference([o_st])\<close>.
\<close>

definition S_drop_stale :: "CausalMessageEntry list \<Rightarrow> CausalMessageEntry list" where
  "S_drop_stale O_M =
     fold (\<lambda>o_st acc.
             if Dests o_st = {} \<and> newerEntryExists (i o_st) (clock_i o_st) acc
             then py_difference acc [o_st] else acc) O_M O_M"

definition piggyback :: "CausalMessageEntry list \<Rightarrow> string set \<Rightarrow> string \<Rightarrow> CausalMessageEntry list" where
  "piggyback LOG Ds d = S_drop_stale (map (S_prune_d d Ds) (deepcopy LOG))"

text \<open>
  The loop \<open>for d in Dests\<close>, over the destinations in iteration order. Each round
  schedules \<open>reactor.callLater(delay, self.controller.peers[d].sendMessage,
  packed_message)\<close>; \<open>peers\<close> is the set of keys of \<open>controller.peers\<close>, and the
  subscript raises \<open>KeyError\<close> for a destination that is not a key. The result
  lists the scheduled calls as triples (delay, destination, packed message).
\<close>

fun send_loop ::
  "string set \<Rightarrow> string \<Rightarrow> int \<Rightarrow> string \<Rightarrow> string set \<Rightarrow> int \<Rightarrow>
   CausalMessageEntry list \<Rightarrow> string list \<Rightarrow> error + (int \<times> string \<times> json) list" where
  "send_loop peers own c M Ds delay LOG [] = Inr []"
| "send_loop peers own c M Ds delay LOG (d # ds) =
     (let O_M = piggyback LOG Ds d;
          packed_message = packMessage own c M Ds O_M
      in if d \<notin> peers then Inl (KeyError d)
         else (case send_loop peers own c M Ds delay LOG ds of
                 Inl err \<Rightarrow> Inl err
               | Inr out \<Rightarrow> Inr ((delay, d, packed_message) # out)))"

text \<open>
  \<open>send(M, Dests, delay)\<close>. When the loop raises, the exception leaves \<open>send\<close>
  with the clock already incremented and the log untouched: \<open>Inl\<close> carries the
  error and that state (the calls scheduled before the error are not recorded).
\<close>

definition send ::
  "string set \<Rightarrow> string \<Rightarrow> string set \<Rightarrow> int \<Rightarrow> CausalOrderManager \<Rightarrow>
   (error \<times> CausalOrderManager) + (CausalOrderManager \<times> (int \<times> string \<times> json) list)" where
  "send peers M Ds delay s =
     (let s1 = s\<lparr>clock_j := clock_j s + 1\<rparr>
      in case send_loop peers (j s1) (clock_j s1) M Ds delay (LOG_j s1) (sorted_list_of_set Ds) of
           Inl err \<Rightarrow> Inl (err, s1)
         | Inr out \<Rightarrow>
             let log1 = map (\<lambda>l. l\<lparr>Dests := Dests l - Ds\<rparr>) (LOG_j s1);
                 log2 = purgeNullEntries log1;
                 log3 = py_union log2 [\<lparr>i = j s1, clock_i = clock_j s1, Dests = Ds\<rparr>]
             in Inr (s1\<lparr>LOG_j := log3\<rparr>, out))"

section \<open>recv\<close>

text \<open>
  (2a) The delivery condition, a loop over \<open>O_M\<close>. The test is
  \<open>self.j in o.Dests and not t_m <= self.SR_j[m]\<close>: the subscript is evaluated
  only when \<open>j\<close> is in the entry's \<open>Dests\<close> and raises \<open>KeyError\<close> for a missing
  key. \<open>Inr False\<close> says that the loop has reached an entry whose test holds, where
  the thread suspends in \<open>condition.wait_for\<close>; \<open>Inr True\<close> that the loop ran
  through without waiting.
\<close>

fun deliveryCondition ::
  "string \<Rightarrow> (string \<rightharpoonup> int) \<Rightarrow> CausalMessageEntry list \<Rightarrow> error + bool" where
  "deliveryCondition own SR [] = Inr True"
| "deliveryCondition own SR (o_mt_m # O_M) =
     (if own \<in> Dests o_mt_m then
        (case SR (i o_mt_m) of
           None \<Rightarrow> Inl (KeyError (i o_mt_m))
         | Some v \<Rightarrow> if \<not> clock_i o_mt_m \<le> v then Inr False
                     else deliveryCondition own SR O_M)
      else deliveryCondition own SR O_M)"

text \<open>
  (2c) \<open>O_M.add(CausalMessageEntry(k, t_k, Dests))\<close>, then for every entry
  \<open>o.Dests = o.Dests.difference(self.j)\<close>. The argument of \<open>difference\<close> is the
  string \<open>self.j\<close>; \<open>difference\<close> iterates over its argument, and iterating over a
  string yields its characters as strings of length one.
\<close>

definition R_incorp :: "string \<Rightarrow> string \<Rightarrow> int \<Rightarrow> string set \<Rightarrow>
    CausalMessageEntry list \<Rightarrow> CausalMessageEntry list" where
  "R_incorp own k t_k Ds O_M =
     map (\<lambda>o_mt_m. o_mt_m\<lparr>Dests := Dests o_mt_m - (\<lambda>c. [c]) ` set own\<rparr>)
         (py_add \<lparr>i = k, clock_i = t_k, Dests = Ds\<rparr> O_M)"

text \<open>
  (2d) The first pair of nested loops fills the two marker lists, then the marked
  entries are discarded from \<open>O_M\<close> and from \<open>LOG_j\<close>. The result is the pair
  (\<open>O_M\<close>, \<open>LOG_j\<close>).
\<close>

definition R_merge :: "CausalMessageEntry list \<Rightarrow> CausalMessageEntry list \<Rightarrow>
    CausalMessageEntry list \<times> CausalMessageEntry list" where
  "R_merge O_M LOG =
     (let LOG_j_as_list = map (\<lambda>elem. (i elem, clock_i elem)) LOG;
          O_M_as_list = map (\<lambda>elem. (i elem, clock_i elem)) O_M;
          marked_o_mts =
            [o_mt. o_mt \<leftarrow> O_M, l_stprime \<leftarrow> LOG,
                   i l_stprime = i o_mt \<and> clock_i o_mt < clock_i l_stprime
                   \<and> (i l_stprime, clock_i o_mt) \<notin> set LOG_j_as_list];
          marked_l_stprimes =
            [l_stprime. o_mt \<leftarrow> O_M, l_stprime \<leftarrow> LOG,
                   i l_stprime = i o_mt \<and> clock_i l_stprime < clock_i o_mt
                   \<and> (i o_mt, clock_i l_stprime) \<notin> set O_M_as_list]
      in (fold py_discard marked_o_mts O_M, fold py_discard marked_l_stprimes LOG))"

text \<open>
  The second pair of nested loops: every log entry is intersected with the
  \<open>Dests\<close> of each entry of \<open>O_M\<close> with the same origin and clock, and those
  entries of \<open>O_M\<close> are marked and then discarded.
\<close>

definition R_shrink :: "CausalMessageEntry list \<Rightarrow> CausalMessageEntry list \<Rightarrow>
    CausalMessageEntry list \<times> CausalMessageEntry list" where
  "R_shrink O_M LOG =
     (let LOG' = map (\<lambda>l_stprime.
                   fold (\<lambda>o_mt l. if i l = i o_mt \<and> clock_i l = clock_i o_mt
                                   then l\<lparr>Dests := Dests l \<inter> Dests o_mt\<rparr> else l)
                        O_M l_stprime) LOG;
          marked_o_mts =
            [o_mt. l_stprime \<leftarrow> LOG, o_mt \<leftarrow> O_M,
                   i l_stprime = i o_mt \<and> clock_i l_stprime = clock_i o_mt]
      in (fold py_discard marked_o_mts O_M, LOG'))"

text \<open>Steps (2b) to (2e) on the state, with the delivery condition passed.\<close>

definition recv_deliver :: "string \<Rightarrow> int \<Rightarrow> string set \<Rightarrow> CausalMessageEntry list \<Rightarrow>
    CausalOrderManager \<Rightarrow> CausalOrderManager" where
  "recv_deliver k t_k Ds O_M s =
     (let sr = (SR_j s)(k \<mapsto> t_k);
          O_M1 = R_incorp (j s) k t_k Ds O_M;
          (O_M2, LOG2) = R_merge O_M1 (LOG_j s);
          (O_M3, LOG3) = R_shrink O_M2 LOG2;
          LOG4 = py_union LOG3 O_M3
      in s\<lparr>SR_j := sr, LOG_j := purgeNullEntries LOG4\<rparr>)"

text \<open>
  \<open>recv(condition, k, t_k, M, Dests, O_M)\<close>, followed up to its first suspension:
  it raises, or it waits, or it hands \<open>M\<close> to \<open>controller.deliverMessage\<close> (taken
  to return normally) and updates the state.
\<close>

datatype recv_outcome = Waits | Delivered CausalOrderManager string

definition recv :: "string \<Rightarrow> int \<Rightarrow> string \<Rightarrow> string set \<Rightarrow> CausalMessageEntry list \<Rightarrow>
    CausalOrderManager \<Rightarrow> error + recv_outcome" where
  "recv k t_k M Ds O_M s =
     (case deliveryCondition (j s) (SR_j s) O_M of
        Inl err \<Rightarrow> Inl err
      | Inr False \<Rightarrow> Inr Waits
      | Inr True \<Rightarrow> Inr (Delivered (recv_deliver k t_k Ds O_M s) M))"

section \<open>The per-destination copy on a store of objects\<close>

text \<open>
  The entries of \<open>LOG_j\<close> are objects, and the first inner loop of \<open>send\<close> assigns
  to the \<open>Dests\<close> attribute of the objects it iterates over. Whether that loop can
  change the log depends on which objects \<open>O_M\<close> holds, so this part of \<open>send\<close> is
  also modelled on a store: a reference is an address, a set of entries is the list
  of the references it holds, and \<open>next_ref\<close> is the first address not yet in use.
\<close>

type_synonym ref = nat

record store =
  cells :: "ref \<Rightarrow> CausalMessageEntry"
  next_ref :: ref

definition alloc :: "CausalMessageEntry \<Rightarrow> store \<Rightarrow> ref \<times> store" where
  "alloc v h =
     (next_ref h, h\<lparr>cells := (cells h)(next_ref h := v), next_ref := Suc (next_ref h)\<rparr>)"

text \<open>\<open>copy.deepcopy\<close> creates a new object for every element of the set \<dots>\<close>

fun copy_entries :: "ref list \<Rightarrow> store \<Rightarrow> ref list \<times> store" where
  "copy_entries [] h = ([], h)"
| "copy_entries (r # rs) h =
     (let (a, h1) = alloc (cells h r) h;
          (as, h2) = copy_entries rs h1
      in (a # as, h2))"

text \<open>\<dots> and builds a set of them; \<open>add\<close> compares the objects with \<open>__eq__\<close>.\<close>

definition ref_add :: "store \<Rightarrow> ref \<Rightarrow> ref list \<Rightarrow> ref list" where
  "ref_add h r rs = (if cells h r \<in> cells h ` set rs then rs else rs @ [r])"

definition deepcopy_store :: "ref list \<Rightarrow> store \<Rightarrow> ref list \<times> store" where
  "deepcopy_store rs h =
     (let (as, h1) = copy_entries rs h in (fold (ref_add h1) as [], h1))"

text \<open>The loop \<open>for o in O_M\<close> with its two assignments to \<open>o.Dests\<close>.\<close>

definition prune_loop :: "string \<Rightarrow> string set \<Rightarrow> ref list \<Rightarrow> store \<Rightarrow> store" where
  "prune_loop d Ds rs h =
     fold (\<lambda>r h'. h'\<lparr>cells := (cells h')(r := S_prune_d d Ds (cells h' r))\<rparr>) rs h"

definition build_O_M :: "string \<Rightarrow> string set \<Rightarrow> ref list \<Rightarrow> store \<Rightarrow> ref list \<times> store" where
  "build_O_M d Ds LOG_refs h =
     (let (O_M, h1) = deepcopy_store LOG_refs h in (O_M, prune_loop d Ds O_M h1))"

section \<open>The caller of send (controller.py, Controller.handleOutgoingMessage)\<close>

text \<open>
  Of the controller, the fields read on this path: the keys of the dictionary
  \<open>peers\<close>, the dictionaries \<open>groups\<close> and \<open>histories\<close> (each history a
  \<open>deque\<close> with \<open>maxlen = history_maxlen\<close>), the own address \<open>ip\<close> and the
  manager.
\<close>

record Controller =
  peers :: "string set"
  groups :: "string \<rightharpoonup> string list"
  history_maxlen :: nat
  histories :: "string \<rightharpoonup> string list"
  ip :: string
  CO_manager :: CausalOrderManager

text \<open>\<open>str.split(sep)\<close> with a separator of one character.\<close>

fun str_split :: "char \<Rightarrow> string \<Rightarrow> string list" where
  "str_split sep [] = [[]]"
| "str_split sep (c # cs) =
     (if c = sep then [] # str_split sep cs
      else (case str_split sep cs of
              [] \<Rightarrow> [[c]]
            | w # ws \<Rightarrow> (c # w) # ws))"

text \<open>\<open>str.find(c)\<close>: the index of the first occurrence, or \<open>-1\<close>.\<close>

fun str_find :: "char \<Rightarrow> string \<Rightarrow> int" where
  "str_find c [] = - 1"
| "str_find c (x # xs) =
     (if x = c then 0
      else (let r = str_find c xs in if r < 0 then - 1 else r + 1))"

text \<open>The slice \<open>message[1:stop]\<close>; a negative \<open>stop\<close> counts from the end.\<close>

definition slice_from_1 :: "string \<Rightarrow> int \<Rightarrow> string" where
  "slice_from_1 message stop =
     (let n = int (length message);
          e = (if stop < 0 then max 0 (n + stop) else min stop n)
      in take (nat e - 1) (drop 1 message))"

text \<open>\<open>xs[1]\<close> raises \<open>IndexError\<close> on a list with fewer than two elements.\<close>

definition subscript_1 :: "'a list \<Rightarrow> error + 'a" where
  "subscript_1 xs = (if 1 < length xs then Inr (xs ! 1) else Inl IndexError)"

text \<open>\<open>deque.append\<close> on a deque with \<open>maxlen\<close>: the oldest elements fall out.\<close>

definition deque_append :: "nat \<Rightarrow> 'a list \<Rightarrow> 'a \<Rightarrow> 'a list" where
  "deque_append maxlen h x = (let h' = h @ [x] in drop (length h' - maxlen) h')"

definition recordMessage :: "string \<Rightarrow> Controller \<Rightarrow> Controller" where
  "recordMessage message c =
     (let header = take 3 message
      in if header = ''MSG'' then
           (let message' = drop 4 message;
                first_space = str_find CHR '' '' message';
                target = slice_from_1 message' first_space
            in case histories c target of
                 None \<Rightarrow> c
               | Some h \<Rightarrow>
                   c\<lparr>histories := (histories c)(target \<mapsto> deque_append (history_maxlen c) h message')\<rparr>)
         else c)"

text \<open>
  The list comprehension \<open>[member.split('@')[1] for member in self.groups[target]]\<close>.
\<close>

fun member_ips :: "string list \<Rightarrow> error + string list" where
  "member_ips [] = Inr []"
| "member_ips (member # members) =
     (case subscript_1 (str_split CHR ''@'' member) of
        Inl err \<Rightarrow> Inl err
      | Inr a \<Rightarrow> (case member_ips members of
                    Inl err \<Rightarrow> Inl err
                  | Inr as \<Rightarrow> Inr (a # as)))"

text \<open>The destination set of a target, before the own address is discarded.\<close>

definition target_Dests :: "string \<Rightarrow> Controller \<Rightarrow> error + string set" where
  "target_Dests target c =
     (if CHR ''@'' \<in> set target then
        (case subscript_1 (str_split CHR ''@'' (drop 1 target)) of
           Inl err \<Rightarrow> Inl err
         | Inr a \<Rightarrow> Inr {a})
      else
        (case groups c target of
           None \<Rightarrow> Inl (KeyError target)
         | Some members \<Rightarrow>
             (case member_ips members of
                Inl err \<Rightarrow> Inl err
              | Inr as \<Rightarrow> Inr (set as))))"

text \<open>
  \<open>handleOutgoingMessage(target, message, delay)\<close>. An exception leaves the
  method with the controller as it is at that point.
\<close>

definition handleOutgoingMessage ::
  "string \<Rightarrow> string \<Rightarrow> int \<Rightarrow> Controller \<Rightarrow>
   (error \<times> Controller) + (Controller \<times> (int \<times> string \<times> json) list)" where
  "handleOutgoingMessage target message delay c =
     (case target_Dests target c of
        Inl err \<Rightarrow> Inl (err, c)
      | Inr Ds0 \<Rightarrow>
          let Ds = Ds0 - {ip c}
          in if Ds = {} then Inr (c, [])
             else
               let c1 = recordMessage message c
               in case send (peers c1) message Ds delay (CO_manager c1) of
                    Inl (err, s1) \<Rightarrow> Inl (err, c1\<lparr>CO_manager := s1\<rparr>)
                  | Inr (s1, out) \<Rightarrow> Inr (c1\<lparr>CO_manager := s1\<rparr>, out))"

section \<open>The log invariant on stale entries\<close>


section \<open>Basic facts about the set operations\<close>

lemma CausalMessageEntry_eq_iff: "CausalMessageEntry_eq a b \<longleftrightarrow> a = b"
  by (cases a, cases b) (simp add: CausalMessageEntry_eq_def)

lemma set_py_add: "set (py_add x xs) = insert x (set xs)"
  by (auto simp: py_add_def)


lemma set_py_set: "set (py_set xs) = set xs"
proof -
  have "set (fold py_add xs acc) = set acc \<union> set xs" for acc :: "'a list"
    by (induction xs arbitrary: acc) (auto simp: set_py_add)
  then show ?thesis by (simp add: py_set_def)
qed




lemma py_set_distinct: "distinct xs \<Longrightarrow> py_set xs = xs"
proof -
  have "distinct (acc @ xs) \<Longrightarrow> fold py_add xs acc = acc @ xs" for acc :: "'a list"
    by (induction xs arbitrary: acc) (auto simp: py_add_def)
  from this [of "[]"] show "distinct xs \<Longrightarrow> py_set xs = xs"
    by (simp add: py_set_def)
qed


lemma recv_Delivered_deliver:
  "recv k t_k M Ds O_M s = Inr (Delivered s' M') \<Longrightarrow> s' = recv_deliver k t_k Ds O_M s"
  by (auto simp: recv_def split: sum.splits bool.splits)

section \<open>Identity of entries\<close>

text \<open>
  C4 (as amended). Two entries are equal iff origin, sequence number and \<open>Dests\<close>
  all match: the generated equality compares every field. Only the hash is
  restricted to (origin, seq): rewriting \<open>Dests\<close> leaves the hash unchanged.
\<close>

theorem entry_equality_all_fields:
  "(CausalMessageEntry_eq a b \<longleftrightarrow> i a = i b \<and> clock_i a = clock_i b \<and> Dests a = Dests b)
   \<and> CausalMessageEntry_hash hash_tuple (a\<lparr>Dests := D\<rparr>) = CausalMessageEntry_hash hash_tuple a"
  by (simp add: CausalMessageEntry_eq_def CausalMessageEntry_hash_def)

text \<open>
  The claim as stated fails: two entries with the same origin and sequence number
  and different \<open>Dests\<close> are not equal.
\<close>

theorem entry_equality_counterexample:
  "i \<lparr>i = ''a'', clock_i = 1, Dests = {''b''}\<rparr> = i \<lparr>i = ''a'', clock_i = 1, Dests = {}\<rparr>
   \<and> clock_i \<lparr>i = ''a'', clock_i = 1, Dests = {''b''}\<rparr>
       = clock_i \<lparr>i = ''a'', clock_i = 1, Dests = {}\<rparr>
   \<and> \<not> CausalMessageEntry_eq \<lparr>i = ''a'', clock_i = 1, Dests = {''b''}\<rparr>
                                \<lparr>i = ''a'', clock_i = 1, Dests = {}\<rparr>"
  by (simp add: CausalMessageEntry_eq_def)

section \<open>Membership: delPeer and addPeer\<close>

text \<open>
  C10. For a peer id without entry in \<open>SR_j\<close>, \<open>delPeer\<close> raises \<open>KeyError\<close>; a
  second \<open>delPeer\<close> of the same peer directly after a successful one therefore
  fails, whereas \<open>addPeer\<close> cannot fail and a second \<open>addPeer\<close> of the same peer
  changes nothing.
\<close>

theorem delPeer_missing_KeyError:
  "(p \<notin> dom (SR_j s) \<longrightarrow> delPeer own_ip p s = Inl (KeyError p))
   \<and> (\<forall>s'. delPeer own_ip p s = Inr s' \<longrightarrow> delPeer own_ip p s' = Inl (KeyError p))
   \<and> addPeer p (addPeer p s) = addPeer p s"
proof (intro conjI allI impI)
  assume "p \<notin> dom (SR_j s)"
  then show "delPeer own_ip p s = Inl (KeyError p)"
    by (simp add: delPeer_def)
next
  fix s' assume "delPeer own_ip p s = Inr s'"
  then have "SR_j s' = (SR_j s)(p := None)"
    by (auto simp: delPeer_def Let_def split: if_splits)
  then show "delPeer own_ip p s' = Inl (KeyError p)"
    by (simp add: delPeer_def)
next
  show "addPeer p (addPeer p s) = addPeer p s"
    by (simp add: addPeer_def py_add_def)
qed

theorem delPeer_missing_KeyError_witness:
  "delPeer ''10.0.0.2'' ''10.0.0.3'' (init ''10.0.0.2'') = Inl (KeyError ''10.0.0.3'')
   \<and> delPeer ''10.0.0.2'' ''10.0.0.3'' (addPeer ''10.0.0.3'' (init ''10.0.0.2''))
       = Inr (init ''10.0.0.2'')
   \<and> addPeer ''10.0.0.3'' (addPeer ''10.0.0.3'' (init ''10.0.0.2''))
       = addPeer ''10.0.0.3'' (init ''10.0.0.2'')"
proof -
  have a: "''10.0.0.3'' \<notin> dom (SR_j (init ''10.0.0.2''))"
    by (simp add: init_def)
  have b: "delPeer ''10.0.0.2'' ''10.0.0.3'' (addPeer ''10.0.0.3'' (init ''10.0.0.2''))
       = Inr (init ''10.0.0.2'')"
    by (simp add: delPeer_def addPeer_def init_def py_set_def py_add_def py_discard_def)
  from delPeer_missing_KeyError [of "''10.0.0.3''" "init ''10.0.0.2''" "''10.0.0.2''"] a
  have c: "delPeer ''10.0.0.2'' ''10.0.0.3'' (init ''10.0.0.2'') = Inl (KeyError ''10.0.0.3'')"
    by blast
  from delPeer_missing_KeyError [of "''10.0.0.3''" "addPeer ''10.0.0.3'' (init ''10.0.0.2'')"
      "''10.0.0.2''"] b
  have d: "delPeer ''10.0.0.2'' ''10.0.0.3'' (init ''10.0.0.2'') = Inl (KeyError ''10.0.0.3'')"
    by blast
  from delPeer_missing_KeyError [of "''10.0.0.3''" "init ''10.0.0.2''" "''10.0.0.2''"]
  have e: "addPeer ''10.0.0.3'' (addPeer ''10.0.0.3'' (init ''10.0.0.2''))
       = addPeer ''10.0.0.3'' (init ''10.0.0.2'')"
    by blast
  from b c d e show ?thesis
    by blast
qed

section \<open>recv: the delivery condition and a missing counter\<close>






section \<open>recv: stripping the own id\<close>

text \<open>
  C2 (the code departs from it). The peer \<open>10.0.0.2\<close> receives the first message
  of \<open>10.0.0.3\<close>, addressed to it. The entry merged into the log still lists
  \<open>10.0.0.2\<close> in its \<open>Dests\<close>: \<open>difference(self.j)\<close> removes the one-character
  strings \<open>1\<close>, \<open>0\<close>, \<open>.\<close> and \<open>2\<close>, not the id.
\<close>

theorem recv_keeps_own_id:
  "recv ''10.0.0.3'' 1 ''MSG hi'' {''10.0.0.2''}
        [\<lparr>i = ''10.0.0.3'', clock_i = 0, Dests = {}\<rparr>,
         \<lparr>i = ''10.0.0.2'', clock_i = 0, Dests = {}\<rparr>]
        (addPeer ''10.0.0.3'' (init ''10.0.0.2''))
   = Inr (Delivered
       \<lparr>j = ''10.0.0.2'', clock_j = 0,
        SR_j = [''10.0.0.2'' \<mapsto> 0, ''10.0.0.3'' \<mapsto> 1],
        LOG_j = [\<lparr>i = ''10.0.0.2'', clock_i = 0, Dests = {}\<rparr>,
                 \<lparr>i = ''10.0.0.3'', clock_i = 1, Dests = {''10.0.0.2''}\<rparr>]\<rparr>
       ''MSG hi'')"
  by (simp add: recv_def recv_deliver_def R_incorp_def R_merge_def R_shrink_def purgeNullEntries_def
      py_union_def py_add_def py_discard_def py_set_def addPeer_def init_def Let_def)

section \<open>The received counters\<close>

text \<open>
  C9 (as amended). \<open>send\<close> leaves \<open>SR_j\<close> unchanged, whether it returns or raises.
  A completed \<open>recv\<close> of an envelope from \<open>k\<close> with clock \<open>t_k\<close> sets \<open>SR_j[k]\<close>
  to \<open>t_k\<close> and changes no other entry. \<open>addPeer(p)\<close> sets \<open>SR_j[p]\<close> to \<open>0\<close> and
  \<open>delPeer(p)\<close> removes \<open>SR_j[p]\<close>, both changing no other entry.
\<close>

theorem SR_j_updates:
  "SR_j (case_sum snd fst (send ps M Ds delay s)) = SR_j s
   \<and> (\<forall>s' M'. recv k t_k M Ds O_M s = Inr (Delivered s' M') \<longrightarrow> SR_j s' = (SR_j s)(k \<mapsto> t_k))
   \<and> SR_j (addPeer p s) = (SR_j s)(p \<mapsto> 0)
   \<and> (\<forall>s'. delPeer own_ip p s = Inr s' \<longrightarrow> SR_j s' = (SR_j s)(p := None))"
proof (intro conjI allI impI)
  show "SR_j (case_sum snd fst (send ps M Ds delay s)) = SR_j s"
    by (simp add: send_def Let_def split: sum.splits)
next
  fix s' M'
  assume "recv k t_k M Ds O_M s = Inr (Delivered s' M')"
  then have "s' = recv_deliver k t_k Ds O_M s"
    by (rule recv_Delivered_deliver)
  then show "SR_j s' = (SR_j s)(k \<mapsto> t_k)"
    by (simp add: recv_deliver_def Let_def split: prod.splits)
next
  show "SR_j (addPeer p s) = (SR_j s)(p \<mapsto> 0)"
    by (simp add: addPeer_def)
next
  fix s'
  assume "delPeer own_ip p s = Inr s'"
  then show "SR_j s' = (SR_j s)(p := None)"
    by (auto simp: delPeer_def Let_def split: if_splits)
qed

theorem SR_j_updates_witness:
  "recv ''b'' 3 ''m'' {''a''} [] (addPeer ''b'' (init ''a''))
     = Inr (Delivered (recv_deliver ''b'' 3 {''a''} [] (addPeer ''b'' (init ''a''))) ''m'')
   \<and> SR_j (recv_deliver ''b'' 3 {''a''} [] (addPeer ''b'' (init ''a''))) ''b'' = Some 3
   \<and> delPeer ''a'' ''b'' (addPeer ''b'' (init ''a'')) = Inr (init ''a'')
   \<and> SR_j (init ''a'') ''b'' = None"
proof -
  have r: "recv ''b'' 3 ''m'' {''a''} [] (addPeer ''b'' (init ''a''))
     = Inr (Delivered (recv_deliver ''b'' 3 {''a''} [] (addPeer ''b'' (init ''a''))) ''m'')"
    by (simp add: recv_def)
  have d: "delPeer ''a'' ''b'' (addPeer ''b'' (init ''a'')) = Inr (init ''a'')"
    by (simp add: delPeer_def addPeer_def init_def py_set_def py_add_def py_discard_def)
  from r d
    SR_j_updates [of "{}" "''m''" "{''a''}" 0 "addPeer ''b'' (init ''a'')" "''b''" 3 "[]"
      "''b''" "''a''"]
  show ?thesis
    by simp
qed

text \<open>
  The claim as stated fails: after a message of \<open>b\<close> with clock \<open>3\<close> has been
  delivered, \<open>addPeer(b)\<close> sets the counter of \<open>b\<close> back to \<open>0\<close>, and so does the
  delivery of an envelope of \<open>b\<close> with clock \<open>1\<close> set it back to \<open>1\<close>.
\<close>

theorem SR_j_monotone_counterexample:
  "recv ''b'' 3 ''m'' {''a''} [] (addPeer ''b'' (init ''a''))
     = Inr (Delivered (recv_deliver ''b'' 3 {''a''} [] (addPeer ''b'' (init ''a''))) ''m'')
   \<and> SR_j (recv_deliver ''b'' 3 {''a''} [] (addPeer ''b'' (init ''a''))) ''b'' = Some 3
   \<and> SR_j (addPeer ''b'' (recv_deliver ''b'' 3 {''a''} [] (addPeer ''b'' (init ''a'')))) ''b'' = Some 0
   \<and> recv ''b'' 1 ''n'' {''a''} [] (recv_deliver ''b'' 3 {''a''} [] (addPeer ''b'' (init ''a'')))
     = Inr (Delivered (recv_deliver ''b'' 1 {''a''} []
              (recv_deliver ''b'' 3 {''a''} [] (addPeer ''b'' (init ''a'')))) ''n'')
   \<and> SR_j (recv_deliver ''b'' 1 {''a''} []
              (recv_deliver ''b'' 3 {''a''} [] (addPeer ''b'' (init ''a'')))) ''b'' = Some 1"
  by (simp add: recv_def recv_deliver_def addPeer_def Let_def split: prod.splits)

section \<open>The log invariant after recv and send\<close>




section \<open>send with an empty destination set\<close>

text \<open>
  C5 (as amended). \<open>send\<close> with an empty destination set raises nothing,
  schedules no call and leaves \<open>SR_j\<close> unchanged, but it increments \<open>clock_j\<close> and,
  after the purge, inserts \<open>(j, clock_j, {})\<close> into \<open>LOG_j\<close>. The no-op is the
  caller's: \<open>handleOutgoingMessage\<close> returns before it calls \<open>send\<close> when no
  destination is left once the own address is discarded, with the controller and
  its manager unchanged and nothing scheduled.
\<close>

theorem send_empty_Dests:
  "send ps M {} delay s =
     Inr (s\<lparr>clock_j := clock_j s + 1,
            LOG_j := py_union (purgeNullEntries (LOG_j s))
                       [\<lparr>i = j s, clock_i = clock_j s + 1, Dests = {}\<rparr>]\<rparr>, [])
   \<and> (\<forall>Ds0. target_Dests target c = Inr Ds0 \<and> Ds0 - {ip c} = {} \<longrightarrow>
         handleOutgoingMessage target message delay c = Inr (c, []))"
  by (simp add: send_def Let_def map_idI handleOutgoingMessage_def)

theorem send_empty_Dests_witness:
  "target_Dests ''all'' \<lparr>peers = {}, groups = [''all'' \<mapsto> [''alice@10.0.0.2'']],
      history_maxlen = 10, histories = [''all'' \<mapsto> []], ip = ''10.0.0.2'',
      CO_manager = init ''10.0.0.2''\<rparr> = Inr {''10.0.0.2''}
   \<and> handleOutgoingMessage ''all'' ''MSG @all alice@10.0.0.2> hi'' 0
      \<lparr>peers = {}, groups = [''all'' \<mapsto> [''alice@10.0.0.2'']],
      history_maxlen = 10, histories = [''all'' \<mapsto> []], ip = ''10.0.0.2'',
      CO_manager = init ''10.0.0.2''\<rparr>
     = Inr (\<lparr>peers = {}, groups = [''all'' \<mapsto> [''alice@10.0.0.2'']],
      history_maxlen = 10, histories = [''all'' \<mapsto> []], ip = ''10.0.0.2'',
      CO_manager = init ''10.0.0.2''\<rparr>, [])"
proof -
  have t: "target_Dests ''all'' \<lparr>peers = {}, groups = [''all'' \<mapsto> [''alice@10.0.0.2'']],
      history_maxlen = 10, histories = [''all'' \<mapsto> []], ip = ''10.0.0.2'',
      CO_manager = init ''10.0.0.2''\<rparr> = Inr {''10.0.0.2''}"
    by (simp add: target_Dests_def subscript_1_def)
  have e: "{''10.0.0.2''} - {ip \<lparr>peers = {}, groups = [''all'' \<mapsto> [''alice@10.0.0.2'']],
      history_maxlen = 10, histories = [''all'' \<mapsto> []], ip = ''10.0.0.2'',
      CO_manager = init ''10.0.0.2''\<rparr>} = {}"
    by simp
  from t e send_empty_Dests [of "{}" "''x''" 0 "init ''10.0.0.2''" "''all''"
      "\<lparr>peers = {}, groups = [''all'' \<mapsto> [''alice@10.0.0.2'']],
      history_maxlen = 10, histories = [''all'' \<mapsto> []], ip = ''10.0.0.2'',
      CO_manager = init ''10.0.0.2''\<rparr>" "''MSG @all alice@10.0.0.2> hi''"]
  show ?thesis
    by blast
qed

text \<open>
  The claim as stated fails on the manager: \<open>send\<close> with an empty set moves the
  clock from \<open>0\<close> to \<open>1\<close> and adds an entry to the log.
\<close>

theorem send_empty_Dests_counterexample:
  "send {} ''MSG hi'' {} 0 (init ''a'')
     = Inr (\<lparr>j = ''a'', clock_j = 1, SR_j = [''a'' \<mapsto> 0],
             LOG_j = [\<lparr>i = ''a'', clock_i = 0, Dests = {}\<rparr>,
                      \<lparr>i = ''a'', clock_i = 1, Dests = {}\<rparr>]\<rparr>, [])
   \<and> clock_j (init ''a'') = 0
   \<and> LOG_j (init ''a'') = [\<lparr>i = ''a'', clock_i = 0, Dests = {}\<rparr>]"
  by (simp add: send_def init_def purgeNullEntries_def py_union_def py_set_def py_add_def Let_def)

section \<open>The codec round trip\<close>

lemma unpack_strs_map_JStr: "unpack_strs (map JStr xs) = Inr xs"
  by (induction xs) simp_all

lemma unpack_entries_packed:
  "\<forall>e \<in> set O_M. finite (Dests e) \<Longrightarrow>
   unpack_entries (map (\<lambda>cme. JArr [JStr (i cme), JInt (clock_i cme),
                                      JArr (map JStr (sorted_list_of_set (Dests cme)))]) O_M)
     = Inr O_M"
  by (induction O_M) (simp_all add: unpack_strs_map_JStr)

text \<open>
  C7. For every envelope whose sets are finite (as every Python set is), empty
  ones included, unpacking the packed envelope gives back the sender, the clock, the
  payload and the destination set, and a set of entries with the same elements as
  \<open>O_M\<close>; it is \<open>O_M\<close> itself when \<open>O_M\<close> holds no entry twice.
\<close>

theorem unpackMessage_packMessage:
  assumes "finite Ds" and "\<forall>e \<in> set O_M. finite (Dests e)"
  shows "unpackMessage (packMessage k t_k M Ds O_M) = Inr (k, t_k, M, Ds, py_set O_M)
         \<and> set (py_set O_M) = set O_M
         \<and> (distinct O_M \<longrightarrow> py_set O_M = O_M)"
  using assms
  by (simp add: packMessage_def unpack_strs_map_JStr unpack_entries_packed set_py_set
      py_set_distinct)

theorem unpackMessage_packMessage_witness:
  "unpackMessage (packMessage ''10.0.0.2'' 2 ''MSG hi'' {}
       [\<lparr>i = ''10.0.0.2'', clock_i = 1, Dests = {}\<rparr>,
        \<lparr>i = ''10.0.0.3'', clock_i = 0, Dests = {''10.0.0.4''}\<rparr>])
   = Inr (''10.0.0.2'', 2, ''MSG hi'', {},
       [\<lparr>i = ''10.0.0.2'', clock_i = 1, Dests = {}\<rparr>,
        \<lparr>i = ''10.0.0.3'', clock_i = 0, Dests = {''10.0.0.4''}\<rparr>])
   \<and> unpackMessage (packMessage ''10.0.0.2'' 2 ''MSG hi'' {''10.0.0.3''} [])
   = Inr (''10.0.0.2'', 2, ''MSG hi'', {''10.0.0.3''}, [])"
proof -
  let ?O = "[\<lparr>i = ''10.0.0.2'', clock_i = 1, Dests = {}\<rparr>,
             \<lparr>i = ''10.0.0.3'', clock_i = 0, Dests = {''10.0.0.4''}\<rparr>]"
  have f: "finite ({} :: string set)" "\<forall>e \<in> set ?O. finite (Dests e)"
    by simp_all
  have g: "finite {''10.0.0.3''}" "\<forall>e \<in> set ([] :: CausalMessageEntry list). finite (Dests e)"
    by simp_all
  have d: "distinct ?O" "distinct ([] :: CausalMessageEntry list)"
    by simp_all
  from unpackMessage_packMessage [OF f, of "''10.0.0.2''" 2 "''MSG hi''"]
    unpackMessage_packMessage [OF g, of "''10.0.0.2''" 2 "''MSG hi''"] d
  show ?thesis
    by metis
qed

section \<open>The piggy-back set of send is an independent copy\<close>

lemma S_prune_d_rewrite:
  "S_prune_d d Ds e =
     e\<lparr>Dests := (if d \<in> Dests e then (Dests e - Ds) \<union> {d} else Dests e - Ds)\<rparr>"
  by (simp add: S_prune_d_def Let_def)

lemma copy_entries_spec:
  "\<forall>r \<in> set rs. r < next_ref h \<Longrightarrow> copy_entries rs h = (as, h') \<Longrightarrow>
   as = [next_ref h ..< next_ref h + length rs]
   \<and> next_ref h' = next_ref h + length rs
   \<and> (\<forall>a < next_ref h. cells h' a = cells h a)
   \<and> map (cells h') as = map (cells h) rs"
proof (induction rs arbitrary: h as h')
  case Nil
  then show ?case by simp
next
  case (Cons r rs)
  obtain a h1 where al: "alloc (cells h r) h = (a, h1)"
    by (cases "alloc (cells h r) h")
  obtain as2 h2 where ce: "copy_entries rs h1 = (as2, h2)"
    by (cases "copy_entries rs h1")
  from al have a: "a = next_ref h" and n1: "next_ref h1 = Suc (next_ref h)"
    and c1: "cells h1 = (cells h)(next_ref h := cells h r)"
    by (auto simp: alloc_def)
  from Cons.prems(2) al ce have res: "as = a # as2" "h' = h2"
    by simp_all
  from Cons.prems(1) n1 have "\<forall>r \<in> set rs. r < next_ref h1"
    by auto
  from Cons.IH [OF this ce]
  have IH: "as2 = [next_ref h1 ..< next_ref h1 + length rs]"
    "next_ref h2 = next_ref h1 + length rs"
    "\<forall>a < next_ref h1. cells h2 a = cells h1 a"
    "map (cells h2) as2 = map (cells h1) rs"
    by blast+
  have same: "map (cells h1) rs = map (cells h) rs"
    using Cons.prems(1) c1 by auto
  have head: "cells h2 a = cells h r"
    using IH(3) a n1 c1 by simp
  show ?case
  proof (intro conjI)
    show "as = [next_ref h ..< next_ref h + length (r # rs)]"
      using res(1) a IH(1) n1 by (simp add: upt_rec)
    show "next_ref h' = next_ref h + length (r # rs)"
      using res(2) IH(2) n1 by simp
    show "\<forall>b < next_ref h. cells h' b = cells h b"
      using res(2) IH(3) n1 c1 by simp
    show "map (cells h') as = map (cells h) (r # rs)"
      using res head IH(4) same by simp
  qed
qed

lemma map_cells_fold_ref_add:
  "map (cells h) (fold (ref_add h) as acc) = fold py_add (map (cells h) as) (map (cells h) acc)"
  by (induction as arbitrary: acc) (simp_all add: ref_add_def py_add_def)

lemma set_fold_ref_add: "set (fold (ref_add h) as acc) \<subseteq> set acc \<union> set as"
proof (induction as arbitrary: acc)
  case Nil
  then show ?case by simp
next
  case (Cons a as)
  have "set (ref_add h a acc) \<subseteq> insert a (set acc)"
    by (auto simp: ref_add_def)
  with Cons [of "ref_add h a acc"] show ?case
    by auto
qed

lemma distinct_fold_ref_add: "distinct acc \<Longrightarrow> distinct (fold (ref_add h) as acc)"
proof (induction as arbitrary: acc)
  case Nil
  then show ?case by simp
next
  case (Cons a as)
  from Cons.prems have "distinct (ref_add h a acc)"
    by (auto simp: ref_add_def)
  from Cons.IH [OF this] show ?case by simp
qed

lemma prune_loop_cells:
  "distinct rs \<Longrightarrow>
   cells (prune_loop d Ds rs h) =
     (\<lambda>a. if a \<in> set rs then S_prune_d d Ds (cells h a) else cells h a)
   \<and> next_ref (prune_loop d Ds rs h) = next_ref h"
proof (induction rs arbitrary: h)
  case Nil
  then show ?case by (simp add: prune_loop_def)
next
  case (Cons r rs)
  let ?h1 = "h\<lparr>cells := (cells h)(r := S_prune_d d Ds (cells h r))\<rparr>"
  have step: "prune_loop d Ds (r # rs) h = prune_loop d Ds rs ?h1"
    by (simp add: prune_loop_def)
  from Cons.prems have "distinct rs" and "r \<notin> set rs"
    by simp_all
  from Cons.IH [OF \<open>distinct rs\<close>, of ?h1] \<open>r \<notin> set rs\<close> show ?case
    unfolding step by (auto simp: fun_eq_iff)
qed

lemma send_loop_out:
  "send_loop ps own c M Ds delay LOG ds = Inr out \<Longrightarrow>
   out = map (\<lambda>d. (delay, d, packMessage own c M Ds (piggyback LOG Ds d))) ds"
  by (induction ds arbitrary: out) (auto simp: Let_def split: if_splits sum.splits)

text \<open>
  C8. Let the entries of \<open>LOG_j\<close> be the objects at \<open>LOG_refs\<close> in the store
  \<open>h\<close>, and let \<open>send\<close> build \<open>O_M\<close> for the destination \<open>d\<close>. Then every object
  that existed before, so every entry of \<open>LOG_j\<close>, is unchanged; \<open>O_M\<close> holds new
  objects only; their values are the entries of the log, each with its \<open>Dests\<close>
  rewritten to \<open>(Dests - Ds) \<union> {d}\<close> when \<open>d\<close> is in it and to \<open>Dests - Ds\<close>
  otherwise; and the set that \<open>send\<close> packs for \<open>d\<close> is this one after the stale
  entries have been dropped.
\<close>

theorem piggyback_independent_copy:
  assumes alloc: "\<forall>r \<in> set LOG_refs. r < next_ref h"
    and build: "build_O_M d Ds LOG_refs h = (O_M, h')"
  shows "(\<forall>a < next_ref h. cells h' a = cells h a)
    \<and> (\<forall>a \<in> set O_M. next_ref h \<le> a)
    \<and> map (cells h') O_M =
        map (\<lambda>e. e\<lparr>Dests := (if d \<in> Dests e then (Dests e - Ds) \<union> {d} else Dests e - Ds)\<rparr>)
            (deepcopy (map (cells h) LOG_refs))
    \<and> piggyback (map (cells h) LOG_refs) Ds d = S_drop_stale (map (cells h') O_M)
    \<and> (\<forall>s s' out ps M delay.
          LOG_j s = map (cells h) LOG_refs \<and> send ps M Ds delay s = Inr (s', out) \<longrightarrow>
          out = map (\<lambda>d'. (delay, d', packMessage (j s) (clock_j s + 1) M Ds
                                    (piggyback (map (cells h) LOG_refs) Ds d')))
                    (sorted_list_of_set Ds))"
proof -
  obtain as h1 where ce: "copy_entries LOG_refs h = (as, h1)"
    by (cases "copy_entries LOG_refs h")
  from copy_entries_spec [OF alloc ce]
  have as: "as = [next_ref h ..< next_ref h + length LOG_refs]"
    and keep1: "\<forall>a < next_ref h. cells h1 a = cells h a"
    and vals: "map (cells h1) as = map (cells h) LOG_refs"
    by blast+
  from build ce have O_M: "O_M = fold (ref_add h1) as []"
    and h': "h' = prune_loop d Ds O_M h1"
    by (auto simp: build_O_M_def deepcopy_store_def)
  have sub: "set O_M \<subseteq> set as"
    using set_fold_ref_add [of h1 as "[]"] by (simp add: O_M)
  have dist: "distinct O_M"
    by (simp add: O_M distinct_fold_ref_add)
  have fresh: "\<forall>a \<in> set O_M. next_ref h \<le> a"
    using sub as by auto
  from prune_loop_cells [OF dist, of d Ds h1]
  have cells': "cells h' = (\<lambda>a. if a \<in> set O_M then S_prune_d d Ds (cells h1 a) else cells h1 a)"
    by (simp add: h')
  have keep: "\<forall>a < next_ref h. cells h' a = cells h a"
    using cells' fresh keep1 by auto
  have copy: "map (cells h1) O_M = deepcopy (map (cells h) LOG_refs)"
    by (simp add: O_M map_cells_fold_ref_add vals deepcopy_def py_set_def)
  have "map (cells h') O_M = map (S_prune_d d Ds) (map (cells h1) O_M)"
    by (simp add: cells')
  then have pruned: "map (cells h') O_M = map (S_prune_d d Ds) (deepcopy (map (cells h) LOG_refs))"
    by (simp only: copy)
  have rewrite: "S_prune_d d Ds =
      (\<lambda>e. e\<lparr>Dests := (if d \<in> Dests e then (Dests e - Ds) \<union> {d} else Dests e - Ds)\<rparr>)"
    by (rule ext) (rule S_prune_d_rewrite)
  from pruned have final: "piggyback (map (cells h) LOG_refs) Ds d = S_drop_stale (map (cells h') O_M)"
    by (simp add: piggyback_def)
  from pruned rewrite have shape: "map (cells h') O_M =
        map (\<lambda>e. e\<lparr>Dests := (if d \<in> Dests e then (Dests e - Ds) \<union> {d} else Dests e - Ds)\<rparr>)
            (deepcopy (map (cells h) LOG_refs))"
    by simp
  have sent: "out = map (\<lambda>d'. (delay, d', packMessage (j s) (clock_j s + 1) M Ds
                                    (piggyback (map (cells h) LOG_refs) Ds d')))
                    (sorted_list_of_set Ds)"
    if "LOG_j s = map (cells h) LOG_refs \<and> send ps M Ds delay s = Inr (s', out)"
    for s s' out ps M delay
  proof -
    from that have "send_loop ps (j s) (clock_j s + 1) M Ds delay (map (cells h) LOG_refs)
        (sorted_list_of_set Ds) = Inr out"
      by (auto simp: send_def Let_def split: sum.splits)
    then show ?thesis
      by (rule send_loop_out)
  qed
  from keep fresh shape final sent show ?thesis
    by blast
qed

theorem piggyback_independent_copy_witness:
  "map (cells (snd (build_O_M ''b'' {''b'', ''c''} [0, 1]
        \<lparr>cells = (\<lambda>_. \<lparr>i = ''a'', clock_i = 0, Dests = {}\<rparr>)
                  (1 := \<lparr>i = ''a'', clock_i = 1, Dests = {''b'', ''c'', ''d''}\<rparr>),
         next_ref = 2\<rparr>))) [0, 1]
     = [\<lparr>i = ''a'', clock_i = 0, Dests = {}\<rparr>,
        \<lparr>i = ''a'', clock_i = 1, Dests = {''b'', ''c'', ''d''}\<rparr>]
   \<and> map (cells (snd (build_O_M ''b'' {''b'', ''c''} [0, 1]
        \<lparr>cells = (\<lambda>_. \<lparr>i = ''a'', clock_i = 0, Dests = {}\<rparr>)
                  (1 := \<lparr>i = ''a'', clock_i = 1, Dests = {''b'', ''c'', ''d''}\<rparr>),
         next_ref = 2\<rparr>)))
        (fst (build_O_M ''b'' {''b'', ''c''} [0, 1]
        \<lparr>cells = (\<lambda>_. \<lparr>i = ''a'', clock_i = 0, Dests = {}\<rparr>)
                  (1 := \<lparr>i = ''a'', clock_i = 1, Dests = {''b'', ''c'', ''d''}\<rparr>),
         next_ref = 2\<rparr>))
     = [\<lparr>i = ''a'', clock_i = 0, Dests = {}\<rparr>,
        \<lparr>i = ''a'', clock_i = 1, Dests = {''b'', ''d''}\<rparr>]
   \<and> send {''b'', ''c''} ''MSG hi'' {''b'', ''c''} 0
        \<lparr>j = ''a'', clock_j = 1, SR_j = [''a'' \<mapsto> 0],
         LOG_j = [\<lparr>i = ''a'', clock_i = 0, Dests = {}\<rparr>,
                  \<lparr>i = ''a'', clock_i = 1, Dests = {''b'', ''c'', ''d''}\<rparr>]\<rparr>
     = Inr (\<lparr>j = ''a'', clock_j = 2, SR_j = [''a'' \<mapsto> 0],
             LOG_j = [\<lparr>i = ''a'', clock_i = 1, Dests = {''d''}\<rparr>,
                      \<lparr>i = ''a'', clock_i = 2, Dests = {''b'', ''c''}\<rparr>]\<rparr>,
            [(0, ''b'', JArr [JStr ''a'', JInt 2, JStr ''MSG hi'', JArr [JStr ''b'', JStr ''c''],
                 JArr [JArr [JStr ''a'', JInt 1, JArr [JStr ''b'', JStr ''d'']]]]),
             (0, ''c'', JArr [JStr ''a'', JInt 2, JStr ''MSG hi'', JArr [JStr ''b'', JStr ''c''],
                 JArr [JArr [JStr ''a'', JInt 1, JArr [JStr ''c'', JStr ''d'']]]])])
   \<and> [(0::int, ''b'', JArr [JStr ''a'', JInt 2, JStr ''MSG hi'', JArr [JStr ''b'', JStr ''c''],
                 JArr [JArr [JStr ''a'', JInt 1, JArr [JStr ''b'', JStr ''d'']]]]),
        (0, ''c'', JArr [JStr ''a'', JInt 2, JStr ''MSG hi'', JArr [JStr ''b'', JStr ''c''],
                 JArr [JArr [JStr ''a'', JInt 1, JArr [JStr ''c'', JStr ''d'']]]])]
     = map (\<lambda>d'. (0, d', packMessage ''a'' 2 ''MSG hi'' {''b'', ''c''}
              (piggyback [\<lparr>i = ''a'', clock_i = 0, Dests = {}\<rparr>,
                  \<lparr>i = ''a'', clock_i = 1, Dests = {''b'', ''c'', ''d''}\<rparr>] {''b'', ''c''} d')))
           (sorted_list_of_set {''b'', ''c''})"
proof -
  let ?e0 = "\<lparr>i = ''a'', clock_i = 0, Dests = {}\<rparr>"
  let ?e1 = "\<lparr>i = ''a'', clock_i = 1, Dests = {''b'', ''c'', ''d''}\<rparr>"
  let ?h = "\<lparr>cells = (\<lambda>_. ?e0)(1 := ?e1), next_ref = 2\<rparr>"
  let ?B = "build_O_M ''b'' {''b'', ''c''} [0, 1] ?h"
  let ?s = "\<lparr>j = ''a'', clock_j = 1, SR_j = [''a'' \<mapsto> 0], LOG_j = [?e0, ?e1]\<rparr>"
  let ?s' = "\<lparr>j = ''a'', clock_j = 2, SR_j = [''a'' \<mapsto> 0],
             LOG_j = [\<lparr>i = ''a'', clock_i = 1, Dests = {''d''}\<rparr>,
                      \<lparr>i = ''a'', clock_i = 2, Dests = {''b'', ''c''}\<rparr>]\<rparr>"
  let ?out = "[(0::int, ''b'', JArr [JStr ''a'', JInt 2, JStr ''MSG hi'', JArr [JStr ''b'', JStr ''c''],
                 JArr [JArr [JStr ''a'', JInt 1, JArr [JStr ''b'', JStr ''d'']]]]),
             (0, ''c'', JArr [JStr ''a'', JInt 2, JStr ''MSG hi'', JArr [JStr ''b'', JStr ''c''],
                 JArr [JArr [JStr ''a'', JInt 1, JArr [JStr ''c'', JStr ''d'']]]])]"
  have a: "\<forall>r \<in> set [0, 1]. r < next_ref ?h"
    by simp
  have b: "?B = (fst ?B, snd ?B)"
    by simp
  have c: "deepcopy (map (cells ?h) [0, 1]) = [?e0, ?e1]"
    by (simp add: deepcopy_def py_set_def py_add_def)
  have d: "{''b'', ''c'', ''d''} - {''b'', ''c''} \<union> {''b''} = {''b'', ''d''}"
    by auto
  have d2: "{''b'', ''c'', ''d''} - {''b'', ''c''} \<union> {''c''} = {''c'', ''d''}"
    "{''b'', ''c'', ''d''} - {''b'', ''c''} = {''d''}"
    by auto
  have srt: "sorted_list_of_set {''b'', ''c''} = [''b'', ''c'']"
    "sorted_list_of_set {''b'', ''d''} = [''b'', ''d'']"
    "sorted_list_of_set {''c'', ''d''} = [''c'', ''d'']"
    by (simp_all add: insort_key.simps)
  have lg: "LOG_j ?s = map (cells ?h) [0, 1]"
    by simp
  have sd: "send {''b'', ''c''} ''MSG hi'' {''b'', ''c''} 0 ?s = Inr (?s', ?out)"
    by (simp add: send_def Let_def srt d d2 piggyback_def deepcopy_def py_set_def py_add_def
        S_prune_d_def S_drop_stale_def packMessage_def purgeNullEntries_def py_union_def
        py_difference_def py_discard_def)
  note T = piggyback_independent_copy [OF a b]
  from T have k: "\<forall>a < next_ref ?h. cells (snd ?B) a = cells ?h a"
    by blast
  from T have m: "map (cells (snd ?B)) (fst ?B) =
        map (\<lambda>e. e\<lparr>Dests := (if ''b'' \<in> Dests e then (Dests e - {''b'', ''c''}) \<union> {''b''}
                               else Dests e - {''b'', ''c''})\<rparr>)
            (deepcopy (map (cells ?h) [0, 1]))"
    by blast
  from T lg sd have o: "?out = map (\<lambda>d'. (0, d', packMessage (j ?s) (clock_j ?s + 1) ''MSG hi''
        {''b'', ''c''} (piggyback (map (cells ?h) [0, 1]) {''b'', ''c''} d')))
           (sorted_list_of_set {''b'', ''c''})"
    by blast
  have o': "?out = map (\<lambda>d'. (0, d', packMessage ''a'' 2 ''MSG hi'' {''b'', ''c''}
              (piggyback [?e0, ?e1] {''b'', ''c''} d'))) (sorted_list_of_set {''b'', ''c''})"
    using o by simp
  from k have k': "map (cells (snd ?B)) [0, 1] = [?e0, ?e1]"
    by simp
  from m have m': "map (cells (snd ?B)) (fst ?B)
      = [?e0, \<lparr>i = ''a'', clock_i = 1, Dests = {''b'', ''d''}\<rparr>]"
    unfolding c by (simp add: d)
  from k' m' sd o' show ?thesis
    by blast
qed

end
